theory Spec2Isabelle
  imports Main
begin

section \<open>Python values\<close>

text \<open>
  The collection works on nested dictionaries, lists and scalars (the JSON bodies of
  the console's REST API and the MSP configuration tree). A Python \<open>dict\<close> is an
  association list in insertion order; its keys are strings throughout. Numbers are
  integers: the code modelled here computes with none.
\<close>

datatype json =
    JNull
  | JBool bool
  | JInt int
  | JStr string
  | JList "json list"
  | JDict "(string \<times> json) list"

type_synonym dict = "(string \<times> json) list"

text \<open>The exceptions the modelled code can raise.\<close>

datatype error =
    KeyError string
  | TypeError
  | AttributeError
  | IndexError
  | Exception string

text \<open>\<open>d[k] = v\<close> on a dict: an existing key keeps its position, a new key is appended.\<close>

fun dict_set :: "string \<Rightarrow> json \<Rightarrow> dict \<Rightarrow> dict" where
  "dict_set k v [] = [(k, v)]"
| "dict_set k v ((k', v') # d) = (if k' = k then (k, v) # d else (k', v') # dict_set k v d)"

text \<open>\<open>del d[k]\<close> and \<open>d.pop(k, None)\<close> on a dict that may or may not hold the key.\<close>

definition dict_del :: "string \<Rightarrow> dict \<Rightarrow> dict" where
  "dict_del k d = filter (\<lambda>kv. fst kv \<noteq> k) d"

definition keys :: "dict \<Rightarrow> string list" where
  "keys d = map fst d"

text \<open>
  \<open>x[k]\<close> with a string key: a dict raises \<open>KeyError\<close> on a missing key, every other
  value raises \<open>TypeError\<close> (lists and strings take integer indices only, scalars are
  not subscriptable).
\<close>

fun subscript :: "json \<Rightarrow> string \<Rightarrow> error + json" where
  "subscript (JDict d) k = (case map_of d k of None \<Rightarrow> Inl (KeyError k) | Some v \<Rightarrow> Inr v)"
| "subscript _ k = Inl TypeError"

text \<open>Error propagation: the rest of a block runs only when the step before returned.\<close>

definition and_then :: "error + 'a \<Rightarrow> ('a \<Rightarrow> error + 'b) \<Rightarrow> error + 'b" where
  "and_then r f = (case r of Inl e \<Rightarrow> Inl e | Inr x \<Rightarrow> f x)"

text \<open>Following a path of keys through nested dicts, for stating properties of trees.\<close>

fun get_path :: "json \<Rightarrow> string list \<Rightarrow> json option" where
  "get_path v [] = Some v"
| "get_path (JDict d) (k # ks) = (case map_of d k of None \<Rightarrow> None | Some v \<Rightarrow> get_path v ks)"
| "get_path _ (k # ks) = None"

section \<open>MSP utilities (plugins/module\_utils/msp\_utils.py)\<close>

text \<open>
  Modelled from the spec: the \<open>Organization\<close> class (module\_utils/organizations.py is
  not among the sources). It is a plain value object; the fields are the eleven
  positional arguments of the constructor call in \<open>msp_to_organization\<close>, named as
  \<open>organization_to_msp\<close> reads them; the last one is what the spec calls
  \<open>signing_identity\<close>.
\<close>

record Organization =
  name :: string
  msp_id :: string
  root_certs :: json
  intermediate_certs :: json
  admins :: json
  revocation_list :: json
  tls_root_certs :: json
  tls_intermediate_certs :: json
  fabric_node_ous :: json
  organizational_unit_identifiers :: json
  signing_identity :: json

definition get_default_admins_policy :: "Organization \<Rightarrow> json" where
  "get_default_admins_policy organization =
     JDict [(''type'', JInt 1),
            (''value'', JDict
               [(''identities'', JList
                   [JDict [(''principal'', JDict [(''msp_identifier'', JStr (msp_id organization)),
                                                  (''role'', JStr ''ADMIN'')]),
                           (''principal_classification'', JStr ''ROLE'')]]),
                (''rule'', JDict
                   [(''n_out_of'', JDict [(''n'', JInt 1),
                                          (''rules'', JList [JDict [(''signed_by'', JInt 0)]])])])])]"

definition get_default_readers_policy :: "Organization \<Rightarrow> json" where
  "get_default_readers_policy organization =
     JDict [(''type'', JInt 1),
            (''value'', JDict
               [(''identities'', JList
                   [JDict [(''principal'', JDict [(''msp_identifier'', JStr (msp_id organization)),
                                                  (''role'', JStr ''MEMBER'')]),
                           (''principal_classification'', JStr ''ROLE'')]]),
                (''rule'', JDict
                   [(''n_out_of'', JDict [(''n'', JInt 1),
                                          (''rules'', JList [JDict [(''signed_by'', JInt 0)]])])])])]"

definition get_default_writers_policy :: "Organization \<Rightarrow> json" where
  "get_default_writers_policy organization =
     JDict [(''type'', JInt 1),
            (''value'', JDict
               [(''identities'', JList
                   [JDict [(''principal'', JDict [(''msp_identifier'', JStr (msp_id organization)),
                                                  (''role'', JStr ''MEMBER'')]),
                           (''principal_classification'', JStr ''ROLE'')]]),
                (''rule'', JDict
                   [(''n_out_of'', JDict [(''n'', JInt 1),
                                          (''rules'', JList [JDict [(''signed_by'', JInt 0)]])])])])]"

definition get_default_endorsement_policy :: "Organization \<Rightarrow> json" where
  "get_default_endorsement_policy organization =
     JDict [(''type'', JInt 1),
            (''value'', JDict
               [(''identities'', JList
                   [JDict [(''principal'', JDict [(''msp_identifier'', JStr (msp_id organization)),
                                                  (''role'', JStr ''MEMBER'')]),
                           (''principal_classification'', JStr ''ROLE'')]]),
                (''rule'', JDict
                   [(''n_out_of'', JDict [(''n'', JInt 1),
                                          (''rules'', JList [JDict [(''signed_by'', JInt 0)]])])])])]"

text \<open>One round of the loop over \<open>policies.items()\<close>.\<close>

definition add_policy :: "dict \<Rightarrow> string \<times> json \<Rightarrow> dict" where
  "add_policy ps entry =
     dict_set (fst entry) (JDict [(''mod_policy'', JStr ''Admins''), (''policy'', snd entry)]) ps"

definition organization_to_msp :: "Organization \<Rightarrow> bool \<Rightarrow> dict \<Rightarrow> json" where
  "organization_to_msp organization endorsement_policy_required policies =
     (let initial =
            [(''Admins'', JDict [(''mod_policy'', JStr ''Admins''),
                                 (''policy'', get_default_admins_policy organization)]),
             (''Readers'', JDict [(''mod_policy'', JStr ''Admins''),
                                  (''policy'', get_default_readers_policy organization)]),
             (''Writers'', JDict [(''mod_policy'', JStr ''Admins''),
                                  (''policy'', get_default_writers_policy organization)])];
          with_endorsement =
            (if endorsement_policy_required
             then dict_set ''Endorsement''
                    (JDict [(''mod_policy'', JStr ''Admins''),
                            (''policy'', get_default_endorsement_policy organization)]) initial
             else initial);
          all_policies = foldl add_policy with_endorsement policies
      in JDict
           [(''groups'', JDict []),
            (''mod_policy'', JStr ''Admins''),
            (''policies'', JDict all_policies),
            (''values'', JDict
               [(''MSP'', JDict
                   [(''mod_policy'', JStr ''Admins''),
                    (''value'', JDict
                       [(''config'', JDict
                           [(''admins'', admins organization),
                            (''crypto_config'', JDict
                               [(''identity_identifier_hash_function'', JStr ''SHA256''),
                                (''signature_hash_family'', JStr ''SHA2'')]),
                            (''fabric_node_ous'', fabric_node_ous organization),
                            (''intermediate_certs'', intermediate_certs organization),
                            (''name'', JStr (msp_id organization)),
                            (''organizational_unit_identifiers'',
                               organizational_unit_identifiers organization),
                            (''revocation_list'', revocation_list organization),
                            (''root_certs'', root_certs organization),
                            (''signing_identity'', JNull),
                            (''tls_intermediate_certs'', tls_intermediate_certs organization),
                            (''tls_root_certs'', tls_root_certs organization)]),
                        (''type'', JInt 0)])])])])"

definition msp_to_organization :: "string \<Rightarrow> json \<Rightarrow> error + Organization" where
  "msp_to_organization mspid msp =
     and_then (subscript msp ''values'') (\<lambda>vals.
     and_then (subscript vals ''MSP'') (\<lambda>msp_value.
     and_then (subscript msp_value ''value'') (\<lambda>val.
     and_then (subscript val ''config'') (\<lambda>msp_config.
     and_then (subscript msp_config ''root_certs'') (\<lambda>rc.
     and_then (subscript msp_config ''intermediate_certs'') (\<lambda>ic.
     and_then (subscript msp_config ''admins'') (\<lambda>ad.
     and_then (subscript msp_config ''revocation_list'') (\<lambda>rl.
     and_then (subscript msp_config ''tls_root_certs'') (\<lambda>trc.
     and_then (subscript msp_config ''tls_intermediate_certs'') (\<lambda>tic.
     and_then (subscript msp_config ''fabric_node_ous'') (\<lambda>fno.
     and_then (subscript msp_config ''organizational_unit_identifiers'') (\<lambda>oui.
       Inr \<lparr>name = mspid, msp_id = mspid, root_certs = rc, intermediate_certs = ic,
            admins = ad, revocation_list = rl, tls_root_certs = trc,
            tls_intermediate_certs = tic, fabric_node_ous = fno,
            organizational_unit_identifiers = oui, signing_identity = JNull\<rparr>))))))))))))"

text \<open>
  A tree is well formed for \<open>msp_to_organization\<close> when \<open>values.MSP.value.config\<close> is a
  dict holding the eight fields the function reads.
\<close>

definition organization_fields :: "string list" where
  "organization_fields =
     [''root_certs'', ''intermediate_certs'', ''admins'', ''revocation_list'', ''tls_root_certs'',
      ''tls_intermediate_certs'', ''fabric_node_ous'', ''organizational_unit_identifiers'']"

definition well_formed_msp :: "json \<Rightarrow> bool" where
  "well_formed_msp msp =
     (case get_path msp [''values'', ''MSP'', ''value'', ''config''] of
        Some (JDict config) \<Rightarrow> list_all (\<lambda>k. k \<in> set (keys config)) organization_fields
      | _ \<Rightarrow> False)"

section \<open>Dictionary utilities (plugins/module\_utils/dict\_utils.py)\<close>

text \<open>
  Modelled from the spec: \<open>copy_dict\<close>, \<open>equal_dicts\<close>, \<open>merge_dicts\<close> and
  \<open>diff_dicts\<close> (dict\_utils.py is not among the sources), after section 4.1 of the
  specification. Values are immutable here, so the deep copy is the identity.
\<close>

definition copy_dict :: "dict \<Rightarrow> dict" where
  "copy_dict d = d"

text \<open>
  Modelled from the spec: \<open>equal\<close>, the deep structural equality of section 4.1.
  Sequences are compared in order, mappings key by key whatever the order of their keys.
\<close>

function (sequential) json_equal :: "json \<Rightarrow> json \<Rightarrow> bool" where
  "json_equal (JDict a) (JDict b) =
     list_all (\<lambda>k. case map_of a k of
                       None \<Rightarrow> False
                     | Some v \<Rightarrow> (case map_of b k of None \<Rightarrow> False | Some w \<Rightarrow> json_equal v w))
       (map fst a @ map fst b)"
| "json_equal (JList xs) (JList ys) =
     (length xs = length ys \<and> list_all (\<lambda>xy. json_equal (fst xy) (snd xy)) (zip xs ys))"
| "json_equal x y = (x = y)"
  by pat_completeness auto
termination
proof (relation "measure (\<lambda>p. size (fst p))", goal_cases)
  case 1
  show ?case by simp
next
  case (2 a b k v w)
  from \<open>map_of a k = Some v\<close> have "(k, v) \<in> set a" by (rule map_of_SomeD)
  then have "size_prod (\<lambda>_. 0) size (k, v) \<le> size_list (size_prod (\<lambda>_. 0) size) a"
    by (rule size_list_estimation') simp
  then show ?case by simp
next
  case (3 xs ys xy)
  then have "fst xy \<in> set xs" by (metis in_set_zipE prod.collapse)
  then have "size (fst xy) \<le> size_list size xs" by (rule size_list_estimation') simp
  then show ?case by simp
qed

definition equal_dicts :: "dict \<Rightarrow> dict \<Rightarrow> bool" where
  "equal_dicts a b = json_equal (JDict a) (JDict b)"

text \<open>
  Modelled from the spec: \<open>merge(base, overlay)\<close> of section 4.1. For each key of the
  overlay, two mappings are merged recursively, anything else replaces the value in the
  base; the other keys of the base are kept. The spec mentions a convention in which an
  explicit null removes a key only as a possibility; it is not part of this model.
\<close>

fun merge_dicts :: "dict \<Rightarrow> dict \<Rightarrow> dict" where
  "merge_dicts base [] = base"
| "merge_dicts base ((k, v) # overlay) =
     merge_dicts
       (dict_set k
          (case v of
             JDict o_sub \<Rightarrow>
               (case map_of base k of
                  Some (JDict b_sub) \<Rightarrow> JDict (merge_dicts b_sub o_sub)
                | _ \<Rightarrow> v)
           | _ \<Rightarrow> v)
          base)
       overlay"

text \<open>
  Modelled from the spec: \<open>diff(a, b)\<close> of section 4.1, the top-level keys whose values
  differ (by the deep equality), each with the whole value from \<open>b\<close>. A key that only
  \<open>b\<close> holds differs; a key that only \<open>a\<close> holds has no value in \<open>b\<close> to report.
\<close>

definition diff_dicts :: "dict \<Rightarrow> dict \<Rightarrow> dict" where
  "diff_dicts a b =
     filter (\<lambda>kv. case map_of a (fst kv) of None \<Rightarrow> True | Some v \<Rightarrow> \<not> json_equal v (snd kv)) b"


section \<open>Python built-ins used by the reconciler\<close>

text \<open>Truth value of a Python object in \<open>if x\<close> and \<open>not x\<close>.\<close>

fun truthy :: "json \<Rightarrow> bool" where
  "truthy JNull = False"
| "truthy (JBool b) = b"
| "truthy (JInt n) = (n \<noteq> 0)"
| "truthy (JStr s) = (s \<noteq> [])"
| "truthy (JList xs) = (xs \<noteq> [])"
| "truthy (JDict d) = (d \<noteq> [])"

definition substring :: "string \<Rightarrow> string \<Rightarrow> bool" where
  "substring k s = list_ex (\<lambda>i. take (length k) (drop i s) = k) [0..<Suc (length s)]"

text \<open>
  \<open>k in x\<close> for a string \<open>k\<close>: key membership in a dict, element membership in a list,
  substring test in a string; the other values are not iterable.
\<close>

fun py_in :: "string \<Rightarrow> json \<Rightarrow> error + bool" where
  "py_in k (JDict d) = Inr (k \<in> set (keys d))"
| "py_in k (JList xs) = Inr (JStr k \<in> set xs)"
| "py_in k (JStr s) = Inr (substring k s)"
| "py_in k _ = Inl TypeError"

text \<open>\<open>x.get(k, default)\<close>: only a dict has the method.\<close>

fun py_get :: "json \<Rightarrow> string \<Rightarrow> json \<Rightarrow> error + json" where
  "py_get (JDict d) k dflt = Inr (case map_of d k of None \<Rightarrow> dflt | Some v \<Rightarrow> v)"
| "py_get _ k dflt = Inl AttributeError"

text \<open>\<open>del x[k]\<close>, giving the container after the deletion.\<close>

fun del_item :: "json \<Rightarrow> string \<Rightarrow> error + json" where
  "del_item (JDict d) k =
     (if k \<in> set (keys d) then Inr (JDict (dict_del k d)) else Inl (KeyError k))"
| "del_item _ k = Inl TypeError"

text \<open>
  \<open>x.pop(k, None)\<close>, giving the container after the call: a list's \<open>pop\<close> takes one
  argument at most, the other values have no \<open>pop\<close>.
\<close>

fun pop_default :: "json \<Rightarrow> string \<Rightarrow> error + json" where
  "pop_default (JDict d) k = Inr (JDict (dict_del k d))"
| "pop_default (JList xs) k = Inl TypeError"
| "pop_default _ k = Inl AttributeError"

text \<open>Iteration: the elements of a list, the characters of a string, the keys of a dict.\<close>

fun py_iter :: "json \<Rightarrow> error + json list" where
  "py_iter (JList xs) = Inr xs"
| "py_iter (JStr s) = Inr (map (\<lambda>c. JStr [c]) s)"
| "py_iter (JDict d) = Inr (map JStr (keys d))"
| "py_iter _ = Inl TypeError"

fun map_result :: "('a \<Rightarrow> error + 'b) \<Rightarrow> 'a list \<Rightarrow> error + 'b list" where
  "map_result f [] = Inr []"
| "map_result f (x # xs) =
     and_then (f x) (\<lambda>y. and_then (map_result f xs) (\<lambda>ys. Inr (y # ys)))"

section \<open>The console and the module's collaborators\<close>

text \<open>
  The console client is an external collaborator. Every call that \<open>main\<close> makes on it
  is recorded, in order, with its arguments; what the console answers is a parameter of
  the model.
\<close>

datatype console_call =
    GetComponentByDisplayName string string
  | IsFreeCluster
  | DeleteOrderingServiceNode json
  | DeleteExtOrderingServiceNode json
  | ResolveOrderingServiceNodeVersion string
  | ResolvePeerVersion string
  | CreateOrderingService dict
  | UpdateOrderingServiceNode json dict
  | EditAdminCerts json "string list" "string list"
  | SubmitConfigBlock json string
  | EditOrderingServiceNode json dict
  | ExtractOrderingServiceNodeInfo json


text \<open>The name of the method a call is made on.\<close>

fun call_name :: "console_call \<Rightarrow> string" where
  "call_name (GetComponentByDisplayName kind display_name) = ''get_component_by_display_name''"
| "call_name IsFreeCluster = ''is_free_cluster''"
| "call_name (DeleteOrderingServiceNode i) = ''delete_ordering_service_node''"
| "call_name (DeleteExtOrderingServiceNode i) = ''delete_ext_ordering_service_node''"
| "call_name (ResolveOrderingServiceNodeVersion v) = ''resolve_ordering_service_node_version''"
| "call_name (ResolvePeerVersion v) = ''resolve_peer_version''"
| "call_name (CreateOrderingService spec) = ''create_ordering_service''"
| "call_name (UpdateOrderingServiceNode i payload) = ''update_ordering_service_node''"
| "call_name (EditAdminCerts i add remove) = ''edit_admin_certs''"
| "call_name (SubmitConfigBlock i block) = ''submit_config_block''"
| "call_name (EditOrderingServiceNode i payload) = ''edit_ordering_service_node''"
| "call_name (ExtractOrderingServiceNodeInfo node) = ''extract_ordering_service_node_info''"

record console =
  get_component_by_display_name :: "string \<Rightarrow> string \<Rightarrow> error + dict option"
  is_free_cluster :: "error + bool"
  delete_ordering_service_node :: "json \<Rightarrow> error + unit"
  delete_ext_ordering_service_node :: "json \<Rightarrow> error + unit"
  resolve_ordering_service_node_version :: "string \<Rightarrow> error + json"
  resolve_peer_version :: "string \<Rightarrow> error + json"
  create_ordering_service :: "dict \<Rightarrow> error + json"
  update_ordering_service_node :: "json \<Rightarrow> dict \<Rightarrow> error + dict"
  edit_admin_certs :: "json \<Rightarrow> string list \<Rightarrow> string list \<Rightarrow> error + unit"
  submit_config_block :: "json \<Rightarrow> string \<Rightarrow> error + unit"
  edit_ordering_service_node :: "json \<Rightarrow> dict \<Rightarrow> error + dict"
  extract_ordering_service_node_info :: "json \<Rightarrow> error + json"

text \<open>
  The module parameters that \<open>main\<close> reads, typed as \<open>argument_spec\<close> declares them
  (\<open>None\<close> for a parameter without a value). The connection parameters and the
  \<open>ordering_service\<close> and \<open>certificate_authority\<close> references are read by the
  helpers below only.
\<close>

datatype desired_state = Present | Absent

record hsm =
  pkcs11endpoint :: "string option"
  label :: string
  pin :: string

record params =
  p_state :: desired_state
  p_name :: string
  p_msp_id :: "string option"
  p_orderer_type :: string
  p_system_channel_id :: string
  p_config_block :: "string option"
  p_enrollment_id :: "string option"
  p_enrollment_secret :: "string option"
  p_admins :: "string list option"
  p_crypto :: "dict option"
  p_config_override :: "dict option"
  p_resources :: "dict option"
  p_storage :: "(string \<times> dict) list"
  p_hsm :: "hsm option"
  p_zone :: "string option"
  p_version :: "string option"
  p_wait_timeout :: int

text \<open>
  Modelled from the spec: the values \<open>main\<close> reads from a certificate authority (its
  names, its certificate, and the host name and the port of its URL, the port already
  through \<open>str\<close>) and from an \<open>OrderingServiceNode\<close> object (the attribute
  \<open>consenter_proposal_fin\<close> and the result of \<open>to_json\<close>); the classes are not among
  the sources.
\<close>

record certificate_authority =
  ca_hostname :: json
  ca_port :: string
  ca_name :: json
  tlsca_name :: json
  ca_pem :: json

record ordering_service_node_object =
  consenter_proposal_fin :: bool
  to_json :: json

text \<open>
  The functions \<open>main\<close> calls that are outside the sources, as parameters: Python's
  \<open>str\<close> as the f-string applies it, \<open>normalize_whitespace\<close> of cert\_utils, the
  look-ups of the ordering service (the cluster id and name of its first node) and of
  the certificate authority, the second construction of the module with the stricter
  argument checks, reading and base64-encoding the config block file,
  \<open>OrderingServiceNode.from_json\<close> and \<open>wait_for\<close>.
\<close>

record helpers =
  py_str :: "json \<Rightarrow> string"
  normalize_whitespace :: "json \<Rightarrow> error + string"
  get_ordering_service_by_module :: "error + json \<times> json"
  get_certificate_authority_by_module :: "error + certificate_authority"
  create_module :: "error + params"
  read_config_block :: "string \<Rightarrow> error + string"
  from_json :: "json \<Rightarrow> error + ordering_service_node_object"
  wait_for :: "ordering_service_node_object \<Rightarrow> int \<Rightarrow> error + unit"

text \<open>
  A run gives the console calls made so far and either the exception that ended it or
  its value.
\<close>

type_synonym 'a run = "console_call list \<times> (error + 'a)"

definition ret :: "'a \<Rightarrow> 'a run" where
  "ret x = ([], Inr x)"

definition raise :: "error \<Rightarrow> 'a run" where
  "raise e = ([], Inl e)"

definition lift :: "error + 'a \<Rightarrow> 'a run" where
  "lift r = ([], r)"

definition call :: "console_call \<Rightarrow> error + 'a \<Rightarrow> 'a run" where
  "call c answer = ([c], answer)"

definition step :: "'a run \<Rightarrow> ('a \<Rightarrow> 'b run) \<Rightarrow> 'b run" where
  "step m f =
     (case m of
        (calls, Inl e) \<Rightarrow> (calls, Inl e)
      | (calls, Inr x) \<Rightarrow> (case f x of (later, r) \<Rightarrow> (calls @ later, r)))"

record outcome =
  changed :: bool
  ordering_service_node :: "json option"

section \<open>The reconciler (plugins/modules/ordering\_service\_node.py)\<close>

subsection \<open>The update branch of \<open>main\<close>\<close>

text \<open>
  Lines 791 to 798: the two loop rounds that delete \<open>limits\<close> under
  \<open>resources.orderer\<close> and \<open>resources.proxy\<close>, then \<open>pop('init', None)\<close>, on the node
  the console returned.
\<close>

definition remove_limits :: "string \<Rightarrow> json \<Rightarrow> error + json" where
  "remove_limits thing resources =
     and_then (py_in thing resources) (\<lambda>present.
       if \<not> present then Inr resources
       else
         and_then (subscript resources thing) (\<lambda>sub.
         and_then (py_in ''limits'' sub) (\<lambda>has_limits.
           if \<not> has_limits then Inr resources
           else
             and_then (del_item sub ''limits'') (\<lambda>sub'.
               case resources of
                 JDict d \<Rightarrow> Inr (JDict (dict_set thing sub' d))
               | _ \<Rightarrow> Inl TypeError))))"

definition strip_rejected_resources :: "dict \<Rightarrow> error + dict" where
  "strip_rejected_resources node =
     and_then (subscript (JDict node) ''resources'') (\<lambda>r0.
     and_then (remove_limits ''orderer'' r0) (\<lambda>r1.
     and_then (remove_limits ''proxy'' r1) (\<lambda>r2.
     and_then (pop_default r2 ''init'') (\<lambda>r3.
       Inr (dict_set ''resources'' r3 node)))))"

text \<open>
  Lines 800 to 818: the expected configuration, the four parameters without the ones
  that are \<open>None\<close>.
\<close>

definition expected_update :: "params \<Rightarrow> dict" where
  "expected_update p =
     (case p_config_override p of None \<Rightarrow> [] | Some c \<Rightarrow> [(''config_override'', JDict c)]) @
     (case p_resources p of None \<Rightarrow> [] | Some r \<Rightarrow> [(''resources'', JDict r)]) @
     (case p_crypto p of None \<Rightarrow> [] | Some c \<Rightarrow> [(''crypto'', JDict c)]) @
     (case p_version p of None \<Rightarrow> [] | Some v \<Rightarrow> [(''version'', JStr v)])"

text \<open>Lines 820 to 824: the version, resolved by the console.\<close>

definition resolve_update_version :: "console \<Rightarrow> params \<Rightarrow> dict \<Rightarrow> dict run" where
  "resolve_update_version c p expected =
     (case p_version p of
        None \<Rightarrow> ret expected
      | Some version \<Rightarrow>
          step (call (ResolvePeerVersion version) (resolve_peer_version c version))
            (\<lambda>resolved_version. ret (dict_set ''version'' resolved_version expected)))"

text \<open>Lines 830 to 836: the loop over the keys of the diff.\<close>

definition permitted_changes :: "string list" where
  "permitted_changes = [''resources'', ''config_override'', ''version'', ''crypto'']"

definition banned_change_message :: "(json \<Rightarrow> string) \<Rightarrow> string \<Rightarrow> json \<Rightarrow> json \<Rightarrow> string" where
  "banned_change_message str change old new =
     change @ '' cannot be changed from '' @ str old @ '' to '' @ str new @
     '' for existing ordering service node''"

fun check_banned_changes :: "(json \<Rightarrow> string) \<Rightarrow> dict \<Rightarrow> dict \<Rightarrow> string list \<Rightarrow> error + unit" where
  "check_banned_changes str node new_node [] = Inr ()"
| "check_banned_changes str node new_node (change # rest) =
     (if change \<in> set permitted_changes then check_banned_changes str node new_node rest
      else
        and_then (subscript (JDict node) change) (\<lambda>old.
        and_then (subscript (JDict new_node) change) (\<lambda>new.
          Inl (Exception (banned_change_message str change old new)))))"

text \<open>
  Lines 826 to 862, for the node \<open>node\<close> and the expected configuration \<open>expected\<close>:
  merge, diff, the check of the banned changes, the whole \<open>resources\<close> when the
  parameter is given, and the update call when the merged node differs. The loop of
  lines 855 to 858 prunes \<open>new_ordering_service_node\<close>, which nothing reads after it.
  The result is \<open>changed\<close> and the node to go on with.
\<close>

definition update_payload :: "params \<Rightarrow> dict \<Rightarrow> dict \<Rightarrow> error + dict" where
  "update_payload p new_node diff =
     (case p_resources p of
        None \<Rightarrow> Inr diff
      | Some r \<Rightarrow>
          and_then (subscript (JDict new_node) ''resources'') (\<lambda>whole.
            Inr (dict_set ''resources'' whole diff)))"

definition apply_update :: "console \<Rightarrow> helpers \<Rightarrow> params \<Rightarrow> dict \<Rightarrow> dict \<Rightarrow> (bool \<times> dict) run" where
  "apply_update c h p node expected =
     (let new_node = merge_dicts (copy_dict node) expected;
          diff = diff_dicts node new_node
      in step (lift (check_banned_changes (py_str h) node new_node (keys diff))) (\<lambda>_.
         step (lift (update_payload p new_node diff)) (\<lambda>payload.
           if \<not> equal_dicts node new_node
           then
             step (lift (subscript (JDict node) ''id'')) (\<lambda>node_id.
             step (call (UpdateOrderingServiceNode node_id payload)
                     (update_ordering_service_node c node_id payload)) (\<lambda>updated.
               ret (True, updated)))
           else ret (False, node))))"

text \<open>\<open>module.params['admins']\<close> as a Python value.\<close>

definition admins_value :: "params \<Rightarrow> json" where
  "admins_value p = (case p_admins p of None \<Rightarrow> JNull | Some xs \<Rightarrow> JList (map JStr xs))"

text \<open>
  Lines 869 to 876: the expected admin certificates, from \<open>admins\<close>, else from
  \<open>crypto.enrollment.component.admincerts\<close>, else from \<open>crypto.msp.component.admincerts\<close>.
\<close>

definition crypto_admincerts :: "dict \<Rightarrow> string \<Rightarrow> error + json" where
  "crypto_admincerts crypto config_type =
     and_then (py_get (JDict crypto) config_type (JDict [])) (\<lambda>config.
     and_then (py_get config ''component'' (JDict [])) (\<lambda>component.
       py_get component ''admincerts'' JNull))"

definition expected_admin_certs :: "params \<Rightarrow> error + json" where
  "expected_admin_certs p =
     (let expected_admins = admins_value p
      in if truthy expected_admins then Inr expected_admins
         else
           (case p_crypto p of
              None \<Rightarrow> Inr expected_admins
            | Some crypto \<Rightarrow>
                if crypto = [] then Inr expected_admins
                else
                  and_then (crypto_admincerts crypto ''enrollment'') (\<lambda>from_enrollment.
                    if truthy from_enrollment then Inr from_enrollment
                    else crypto_admincerts crypto ''msp'')))"

text \<open>
  \<open>set(map(normalize_whitespace, xs))\<close> and \<open>list(a.difference(b))\<close>. A Python set has
  no order of its own; the lists here hold each element once, in the order of the first
  operand, and the properties below speak of their elements only.
\<close>

definition normalized_set :: "(json \<Rightarrow> error + string) \<Rightarrow> json \<Rightarrow> error + string list" where
  "normalized_set normalise xs =
     and_then (py_iter xs) (\<lambda>items.
     and_then (map_result normalise items) (\<lambda>certs. Inr (remdups certs)))"

definition set_difference :: "string list \<Rightarrow> string list \<Rightarrow> string list" where
  "set_difference a b = filter (\<lambda>x. x \<notin> set b) a"

text \<open>Lines 877 to 886.\<close>

definition reconcile_admin_certs ::
  "console \<Rightarrow> helpers \<Rightarrow> params \<Rightarrow> bool \<times> dict \<Rightarrow> (bool \<times> dict) run" where
  "reconcile_admin_certs c h p state =
     step (lift (expected_admin_certs p)) (\<lambda>expected_admins.
       if \<not> truthy expected_admins then ret state
       else
         step (lift (normalized_set (normalize_whitespace h) expected_admins)) (\<lambda>expected_admins_set.
         step (lift (py_get (JDict (snd state)) ''admin_certs'' JNull)) (\<lambda>actual_admins.
           if actual_admins = JNull then ret state
           else
             step (lift (normalized_set (normalize_whitespace h) actual_admins)) (\<lambda>actual_admins_set.
               let append_admin_certs = set_difference expected_admins_set actual_admins_set;
                   remove_admin_certs = set_difference actual_admins_set expected_admins_set
               in if append_admin_certs \<noteq> [] \<or> remove_admin_certs \<noteq> []
                  then
                    step (lift (subscript (JDict (snd state)) ''id'')) (\<lambda>node_id.
                    step (call (EditAdminCerts node_id append_admin_certs remove_admin_certs)
                            (edit_admin_certs c node_id append_admin_certs remove_admin_certs)) (\<lambda>_.
                      ret (True, snd state)))
                  else ret state))))"

text \<open>Lines 888 to 906: the config block for a node that is not in the system channel.\<close>

definition send_config_block ::
  "console \<Rightarrow> helpers \<Rightarrow> params \<Rightarrow> bool \<times> dict \<Rightarrow> (bool \<times> dict) run" where
  "send_config_block c h p state =
     step (lift (subscript (JDict (snd state)) ''consenter_proposal_fin'')) (\<lambda>fin.
       if truthy fin then ret state
       else
         (case p_config_block p of
            None \<Rightarrow> ret state
          | Some config_block_file \<Rightarrow>
              if config_block_file = [] then ret state
              else
                step (lift (read_config_block h config_block_file)) (\<lambda>config_block.
                step (lift (subscript (JDict (snd state)) ''id'')) (\<lambda>node_id.
                step (call (SubmitConfigBlock node_id config_block)
                        (submit_config_block c node_id config_block)) (\<lambda>_.
                step (call (EditOrderingServiceNode node_id [(''consenter_proposal_fin'', JBool True)])
                        (edit_ordering_service_node c node_id
                           [(''consenter_proposal_fin'', JBool True)])) (\<lambda>edited.
                  ret (True, edited)))))))"

text \<open>Lines 789 to 906: the branch for a node that exists.\<close>

definition update_branch :: "console \<Rightarrow> helpers \<Rightarrow> params \<Rightarrow> dict \<Rightarrow> (bool \<times> dict) run" where
  "update_branch c h p observed =
     step (lift (strip_rejected_resources observed)) (\<lambda>node.
     step (resolve_update_version c p (expected_update p)) (\<lambda>expected.
     step (apply_update c h p node expected) (\<lambda>updated.
     step (reconcile_admin_certs c h p updated) (\<lambda>reconciled.
       send_config_block c h p reconciled))))"

subsection \<open>The create branch of \<open>main\<close>\<close>

definition opt_str :: "string option \<Rightarrow> json" where
  "opt_str x = (case x of None \<Rightarrow> JNull | Some s \<Rightarrow> JStr s)"

definition opt_dict :: "dict option \<Rightarrow> json" where
  "opt_dict x = (case x of None \<Rightarrow> JNull | Some d \<Rightarrow> JDict d)"

text \<open>Lines 638 to 651, as the source writes them.\<close>

definition default_resources :: dict where
  "default_resources =
     [(''type'', JStr ''dict''),
      (''default'', JDict []),
      (''options'', JDict
         [(''orderer'', JDict
             [(''type'', JStr ''dict''),
              (''default'', JDict []),
              (''options'', JDict
                 [(''requests'', JDict
                     [(''type'', JStr ''dict''),
                      (''default'', JDict []),
                      (''options'', JDict
                         [(''cpu'', JDict [(''type'', JStr ''str''), (''default'', JStr ''250m'')]),
                          (''memory'', JDict [(''type'', JStr ''str''),
                                              (''default'', JStr ''500M'')])])])])]),
          (''proxy'', JDict
             [(''type'', JStr ''dict''),
              (''default'', JDict []),
              (''options'', JDict
                 [(''requests'', JDict
                     [(''type'', JStr ''dict''),
                      (''default'', JDict []),
                      (''options'', JDict
                         [(''cpu'', JDict [(''type'', JStr ''str''), (''default'', JStr ''100m'')]),
                          (''memory'', JDict [(''type'', JStr ''str''),
                                              (''default'', JStr ''200M'')])])])])])])]"

text \<open>Lines 708 to 715: a storage class that is \<open>None\<close> is taken out.\<close>

definition strip_storage_class :: "(string \<times> dict) list \<Rightarrow> (string \<times> dict) list" where
  "strip_storage_class storage =
     map (\<lambda>entry.
            if ''class'' \<in> set (keys (snd entry)) \<and> map_of (snd entry) ''class'' = Some JNull
            then (fst entry, dict_del ''class'' (snd entry))
            else entry)
       storage"

text \<open>
  Lines 717 and 718, and line 756. \<open>merge_dicts\<close> works in place and the spec has it
  total: with \<open>None\<close> for the overlay there is no key to merge and the base stays as it
  is, with \<open>None\<close> for the base there is nothing to merge into.
\<close>

definition create_resources :: "params \<Rightarrow> dict" where
  "create_resources p =
     (case p_resources p of
        None \<Rightarrow> copy_dict default_resources
      | Some r \<Rightarrow> merge_dicts (copy_dict default_resources) r)"

definition hsm_config_override :: "hsm \<Rightarrow> dict" where
  "hsm_config_override m =
     [(''General'', JDict
         [(''BCCSP'', JDict
             [(''Default'', JStr ''PKCS11''),
              (''PKCS11'', JDict [(''Label'', JStr (label m)), (''Pin'', JStr (pin m))])])])]"

definition add_hsm :: "params \<Rightarrow> dict \<Rightarrow> dict" where
  "add_hsm p expected =
     (case p_hsm p of
        None \<Rightarrow> expected
      | Some m \<Rightarrow>
          (let with_endpoint =
                 (case pkcs11endpoint m of
                    None \<Rightarrow> expected
                  | Some endpoint \<Rightarrow>
                      if endpoint = [] then expected
                      else dict_set ''hsm'' (JDict [(''pkcs11endpoint'', JStr endpoint)]) expected)
           in case map_of with_endpoint ''config_override'' of
                Some (JDict config_override) \<Rightarrow>
                  dict_set ''config_override''
                    (JDict (merge_dicts config_override (hsm_config_override m))) with_endpoint
              | _ \<Rightarrow> with_endpoint))"

text \<open>Lines 721 to 761: the expected node before the version is resolved.\<close>

definition expected_create :: "string \<Rightarrow> json \<times> json \<Rightarrow> bool \<Rightarrow> params \<Rightarrow> dict" where
  "expected_create display_name cluster free p =
     (let expected =
            [(''display_name'', JStr display_name),
             (''cluster_id'', fst cluster),
             (''cluster_name'', snd cluster),
             (''msp_id'', opt_str (p_msp_id p)),
             (''orderer_type'', JStr (p_orderer_type p)),
             (''system_channel_id'', JStr (p_system_channel_id p)),
             (''config_override'', opt_dict (p_config_override p)),
             (''resources'', JDict (create_resources p)),
             (''storage'', JDict (map (\<lambda>entry. (fst entry, JDict (snd entry)))
                                     (strip_storage_class (p_storage p))))];
          sized = (if free then dict_del ''storage'' (dict_del ''resources'' expected) else expected);
          with_hsm = add_hsm p sized
      in case p_zone p of None \<Rightarrow> with_hsm | Some zone \<Rightarrow> dict_set ''zone'' (JStr zone) with_hsm)"

text \<open>Lines 763 to 767.\<close>

definition resolve_create_version :: "console \<Rightarrow> params \<Rightarrow> dict \<Rightarrow> dict run" where
  "resolve_create_version c p expected =
     (case p_version p of
        None \<Rightarrow> ret expected
      | Some version \<Rightarrow>
          step (call (ResolveOrderingServiceNodeVersion version)
                  (resolve_ordering_service_node_version c version))
            (\<lambda>resolved_version. ret (dict_set ''version'' resolved_version expected)))"

text \<open>Lines 499 to 551: \<open>get_crypto\<close> and the functions it calls.\<close>

definition get_crypto_enrollment_component_config :: "params \<Rightarrow> json" where
  "get_crypto_enrollment_component_config p = JDict [(''admincerts'', admins_value p)]"

definition get_crypto_enrollment_ca_config :: "helpers \<Rightarrow> params \<Rightarrow> error + json" where
  "get_crypto_enrollment_ca_config h p =
     and_then (get_certificate_authority_by_module h) (\<lambda>ca.
       Inr (JDict [(''host'', ca_hostname ca),
                   (''port'', JStr (ca_port ca)),
                   (''name'', ca_name ca),
                   (''tls_cert'', ca_pem ca),
                   (''enroll_id'', opt_str (p_enrollment_id p)),
                   (''enroll_secret'', opt_str (p_enrollment_secret p))]))"

definition get_crypto_enrollment_tlsca_config :: "helpers \<Rightarrow> params \<Rightarrow> error + json" where
  "get_crypto_enrollment_tlsca_config h p =
     and_then (get_certificate_authority_by_module h) (\<lambda>ca.
       Inr (JDict [(''host'', ca_hostname ca),
                   (''port'', JStr (ca_port ca)),
                   (''name'', tlsca_name ca),
                   (''tls_cert'', ca_pem ca),
                   (''enroll_id'', opt_str (p_enrollment_id p)),
                   (''enroll_secret'', opt_str (p_enrollment_secret p))]))"

definition get_crypto_enrollment_config :: "helpers \<Rightarrow> params \<Rightarrow> error + json" where
  "get_crypto_enrollment_config h p =
     and_then (get_crypto_enrollment_ca_config h p) (\<lambda>ca.
     and_then (get_crypto_enrollment_tlsca_config h p) (\<lambda>tlsca.
       Inr (JDict [(''component'', get_crypto_enrollment_component_config p),
                   (''ca'', ca),
                   (''tlsca'', tlsca)])))"

definition get_crypto :: "helpers \<Rightarrow> params \<Rightarrow> error + json" where
  "get_crypto h p =
     and_then (get_crypto_enrollment_config h p) (\<lambda>enrollment.
       Inr (JDict [(''enrollment'', enrollment)]))"

text \<open>Lines 769 to 779: the lists that the request for a whole ordering service takes.\<close>

definition as_one_node_service :: "helpers \<Rightarrow> params \<Rightarrow> dict \<Rightarrow> error + dict" where
  "as_one_node_service h p expected =
     and_then (subscript (JDict expected) ''config_override'') (\<lambda>config_override.
       let listed = dict_set ''config_override'' (JList [config_override]) expected;
           zoned = (case p_zone p of
                      None \<Rightarrow> listed
                    | Some zone \<Rightarrow> dict_set ''zone'' (JList [JStr zone]) listed)
       in and_then (get_crypto h p) (\<lambda>crypto. Inr (dict_set ''crypto'' (JList [crypto]) zoned)))"

text \<open>Lines 783 to 786.\<close>

fun first_node :: "json \<Rightarrow> error + json" where
  "first_node (JList []) = Inl IndexError"
| "first_node (JList (node # nodes)) = Inr node"
| "first_node ordering_service = Inr ordering_service"

text \<open>
  Lines 688 to 787: the branch for a node that does not exist. The result is the
  parameters of the module constructed here and the node the console created.
\<close>

definition create_branch :: "console \<Rightarrow> helpers \<Rightarrow> string \<Rightarrow> (params \<times> json) run" where
  "create_branch c h display_name =
     step (lift (get_ordering_service_by_module h)) (\<lambda>cluster.
     step (lift (create_module h)) (\<lambda>p.
     step (call IsFreeCluster (is_free_cluster c)) (\<lambda>free.
     step (resolve_create_version c p (expected_create display_name cluster free p)) (\<lambda>expected.
     step (lift (as_one_node_service h p expected)) (\<lambda>request.
     step (call (CreateOrderingService request) (create_ordering_service c request)) (\<lambda>ordering_service.
     step (lift (first_node ordering_service)) (\<lambda>node.
       ret (p, node))))))))"

subsection \<open>\<open>main\<close>\<close>

text \<open>Lines 908 to 915.\<close>

definition finish :: "console \<Rightarrow> helpers \<Rightarrow> params \<Rightarrow> bool \<Rightarrow> json \<Rightarrow> outcome run" where
  "finish c h p has_changed node =
     step (call (ExtractOrderingServiceNodeInfo node) (extract_ordering_service_node_info c node)) (\<lambda>info.
     step (lift (from_json h info)) (\<lambda>object.
     step (if consenter_proposal_fin object then lift (wait_for h object (p_wait_timeout p))
           else ret ()) (\<lambda>_.
       ret \<lparr>changed = has_changed, ordering_service_node = Some (to_json object)\<rparr>)))"

text \<open>Lines 656 to 662: no resources or storage on a free cluster.\<close>

definition free_cluster_params :: "bool \<Rightarrow> bool \<Rightarrow> string list \<Rightarrow> params \<Rightarrow> params run" where
  "free_cluster_params free node_exists actual_params p =
     (if free
      then
        if ''resources'' \<in> set actual_params \<or> ''storage'' \<in> set actual_params
        then raise (Exception
               ''Cannot specify resources or storage for a free IBM Kubernetes Service cluster'')
        else if node_exists then ret (p\<lparr>p_resources := Some [], p_storage := []\<rparr>)
        else ret p
      else ret p)"

text \<open>
  Lines 620 to 915, after the login: \<open>actual_params\<close> are the names of the parameters
  the caller passed, \<open>p\<close> the parameters of the module.
\<close>

definition main :: "console \<Rightarrow> helpers \<Rightarrow> string list \<Rightarrow> params \<Rightarrow> outcome run" where
  "main c h actual_params p0 =
     step (call (GetComponentByDisplayName ''fabric-orderer'' (p_name p0))
             (get_component_by_display_name c ''fabric-orderer'' (p_name p0))) (\<lambda>found.
     step (call IsFreeCluster (is_free_cluster c)) (\<lambda>free.
     step (free_cluster_params free (found \<noteq> None) actual_params p0) (\<lambda>p.
       case found of
         None \<Rightarrow>
           (case p_state p of
              Absent \<Rightarrow> ret \<lparr>changed = False, ordering_service_node = None\<rparr>
            | Present \<Rightarrow>
                step (create_branch c h (p_name p0)) (\<lambda>created.
                  finish c h (fst created) True (snd created)))
       | Some observed \<Rightarrow>
           (case p_state p of
              Absent \<Rightarrow>
                step (lift (subscript (JDict observed) ''id'')) (\<lambda>node_id.
                step (call (DeleteOrderingServiceNode node_id)
                        (delete_ordering_service_node c node_id)) (\<lambda>_.
                  ret \<lparr>changed = True, ordering_service_node = None\<rparr>))
            | Present \<Rightarrow>
                if ''deployment_attrs_missing'' \<in> set (keys observed)
                then
                  step (lift (subscript (JDict observed) ''id'')) (\<lambda>node_id.
                  step (call (DeleteExtOrderingServiceNode node_id)
                          (delete_ext_ordering_service_node c node_id)) (\<lambda>_.
                  step (create_branch c h (p_name p0)) (\<lambda>created.
                    finish c h (fst created) True (snd created))))
                else
                  step (update_branch c h p observed) (\<lambda>updated.
                    finish c h p (fst updated) (JDict (snd updated)))))))"


definition result_admin_certs :: "outcome run \<Rightarrow> error + json option" where
  "result_admin_certs r =
     map_sum id (\<lambda>out. case ordering_service_node out of
                          None \<Rightarrow> None
                        | Some node \<Rightarrow> get_path node [''admin_certs'']) (snd r)"

section \<open>An example console\<close>

text \<open>
  A console that holds at most one node, for running the model on concrete inputs: it
  stores what an update sends, key by key, answers a create request with the request and
  the fields the server adds, and resolves a version to a string that tells the two
  resolvers apart. The helper \<open>normalize_whitespace\<close> removes the blanks of a
  certificate here.
\<close>

definition demo_node :: dict where
  "demo_node =
     [(''id'', JStr ''osn1''),
      (''display_name'', JStr ''Ordering Service Node 1''),
      (''msp_id'', JStr ''OrdererOrgMSP''),
      (''config_override'', JDict []),
      (''resources'', JDict
         [(''orderer'', JDict
             [(''requests'', JDict [(''cpu'', JStr ''250m''), (''memory'', JStr ''500M'')]),
              (''limits'', JDict [(''cpu'', JStr ''1'')])]),
          (''init'', JDict [(''requests'', JDict [(''cpu'', JStr ''100m'')])])]),
      (''version'', JStr ''2.2.5''),
      (''admin_certs'', JList [JStr ''B'', JStr '' C'']),
      (''consenter_proposal_fin'', JBool True)]"

definition demo_params :: params where
  "demo_params =
     \<lparr>p_state = Present, p_name = ''Ordering Service Node 1'', p_msp_id = Some ''OrdererOrgMSP'',
      p_orderer_type = ''raft'', p_system_channel_id = ''testchainid'', p_config_block = None,
      p_enrollment_id = None, p_enrollment_secret = None, p_admins = None, p_crypto = None,
      p_config_override = Some [], p_resources = None, p_storage = [], p_hsm = None,
      p_zone = None, p_version = None, p_wait_timeout = 60\<rparr>"

definition store :: "dict \<Rightarrow> dict \<Rightarrow> dict" where
  "store node payload = foldl (\<lambda>n kv. dict_set (fst kv) (snd kv) n) node payload"

definition demo_console :: "dict option \<Rightarrow> console" where
  "demo_console found =
     \<lparr>get_component_by_display_name = (\<lambda>kind display_name. Inr found),
      is_free_cluster = Inr False,
      delete_ordering_service_node = (\<lambda>i. Inr ()),
      delete_ext_ordering_service_node = (\<lambda>i. Inr ()),
      resolve_ordering_service_node_version = (\<lambda>v. Inr (JStr (''orderer '' @ v))),
      resolve_peer_version = (\<lambda>v. Inr (JStr (''peer '' @ v))),
      create_ordering_service =
        (\<lambda>spec. Inr (JList [JDict (store spec [(''id'', JStr ''osn1''),
                       (''admin_certs'', JList [JStr ''B'', JStr '' C'']),
                       (''consenter_proposal_fin'', JBool True)])])),
      update_ordering_service_node =
        (\<lambda>i payload. case found of None \<Rightarrow> Inl (Exception ''not found'')
                                   | Some node \<Rightarrow> Inr (store node payload)),
      edit_admin_certs = (\<lambda>i add remove. Inr ()),
      submit_config_block = (\<lambda>i block. Inr ()),
      edit_ordering_service_node =
        (\<lambda>i payload. case found of None \<Rightarrow> Inl (Exception ''not found'')
                                   | Some node \<Rightarrow> Inr (store node payload)),
      extract_ordering_service_node_info = (\<lambda>node. Inr node)\<rparr>"

definition demo_helpers :: "params \<Rightarrow> helpers" where
  "demo_helpers p =
     \<lparr>py_str = (\<lambda>v. case v of JStr s \<Rightarrow> s | _ \<Rightarrow> ''...''),
      normalize_whitespace =
        (\<lambda>v. case v of JStr s \<Rightarrow> Inr (filter (\<lambda>ch. ch \<noteq> CHR '' '') s) | _ \<Rightarrow> Inl TypeError),
      get_ordering_service_by_module = Inr (JStr ''cluster1'', JStr ''Ordering Service''),
      get_certificate_authority_by_module =
        Inr \<lparr>ca_hostname = JStr ''ca.example.org'', ca_port = ''7054'', ca_name = JStr ''ca'',
             tlsca_name = JStr ''tlsca'', ca_pem = JStr ''pem''\<rparr>,
      create_module = Inr p,
      read_config_block = (\<lambda>file. Inr ''YmxvY2s=''),
      from_json =
        (\<lambda>info. Inr \<lparr>consenter_proposal_fin =
                        (get_path info [''consenter_proposal_fin''] = Some (JBool True)),
                      to_json = info\<rparr>),
      wait_for = (\<lambda>node timeout. Inr ())\<rparr>"


definition demo_stripped :: dict where
  "demo_stripped =
     [(''id'', JStr ''osn1''),
      (''display_name'', JStr ''Ordering Service Node 1''),
      (''msp_id'', JStr ''OrdererOrgMSP''),
      (''config_override'', JDict []),
      (''resources'', JDict
         [(''orderer'', JDict
             [(''requests'', JDict [(''cpu'', JStr ''250m''), (''memory'', JStr ''500M'')])])]),
      (''version'', JStr ''2.2.5''),
      (''admin_certs'', JList [JStr ''B'', JStr '' C'']),
      (''consenter_proposal_fin'', JBool True)]"

definition demo_resources :: dict where
  "demo_resources = [(''orderer'', JDict [(''requests'', JDict [(''cpu'', JStr ''250m'')])])]"

definition demo_limits_params :: params where
  "demo_limits_params =
     demo_params\<lparr>p_resources :=
       Some [(''orderer'', JDict [(''limits'', JDict [(''cpu'', JStr ''1'')])])]\<rparr>"

definition demo_node_after :: dict where
  "demo_node_after =
     [(''id'', JStr ''osn1''),
      (''display_name'', JStr ''Ordering Service Node 1''),
      (''msp_id'', JStr ''OrdererOrgMSP''),
      (''config_override'', JDict []),
      (''resources'', JDict
         [(''orderer'', JDict
             [(''requests'', JDict [(''cpu'', JStr ''250m''), (''memory'', JStr ''500M'')]),
              (''limits'', JDict [(''cpu'', JStr ''1'')])])]),
      (''version'', JStr ''2.2.5''),
      (''admin_certs'', JList [JStr ''B'', JStr '' C'']),
      (''consenter_proposal_fin'', JBool True)]"

definition demo_converged_params :: params where
  "demo_converged_params =
     demo_params\<lparr>p_admins := Some [''B'', ''C ''],
       p_resources := Some [(''orderer'', JDict [(''requests'', JDict [(''cpu'', JStr ''250m'')])])]\<rparr>"

section \<open>Properties\<close>

subsection \<open>Unfolding the model on concrete inputs\<close>

lemmas python_defs = keys_def dict_del_def copy_dict_def equal_dicts_def diff_dicts_def
  substring_def opt_str_def opt_dict_def ret_def raise_def lift_def call_def

lemmas update_defs = admins_value_def update_branch_def strip_rejected_resources_def remove_limits_def
  expected_update_def resolve_update_version_def permitted_changes_def
  banned_change_message_def update_payload_def apply_update_def crypto_admincerts_def
  expected_admin_certs_def normalized_set_def set_difference_def reconcile_admin_certs_def
  send_config_block_def

lemmas create_defs = default_resources_def strip_storage_class_def
  create_resources_def hsm_config_override_def add_hsm_def expected_create_def
  resolve_create_version_def get_crypto_enrollment_component_config_def
  get_crypto_enrollment_ca_config_def get_crypto_enrollment_tlsca_config_def
  get_crypto_enrollment_config_def get_crypto_def as_one_node_service_def create_branch_def


lemmas demo_defs = demo_node_def demo_stripped_def demo_node_after_def demo_params_def
  demo_resources_def
  demo_limits_params_def demo_converged_params_def store_def demo_console_def demo_helpers_def

subsection \<open>The MSP utilities\<close>

lemma and_then_Inr [simp]: "and_then (Inr x) f = f x"
  by (simp add: and_then_def)

lemma and_then_Inl [simp]: "and_then (Inl e) f = Inl e"
  by (simp add: and_then_def)

lemma and_then_eq_Inr: "and_then r f = Inr y \<longleftrightarrow> (\<exists>x. r = Inr x \<and> f x = Inr y)"
  by (cases r) auto


lemma get_path_Some_subscript:
  "get_path v (k # ks) = Some w \<Longrightarrow> \<exists>u. subscript v k = Inr u \<and> get_path u ks = Some w"
  by (cases v) (auto split: option.splits)



lemma subscript_dict_mem: "k \<in> set (keys d) \<Longrightarrow> \<exists>v. subscript (JDict d) k = Inr v"
  by (cases "map_of d k") (auto simp: keys_def map_of_eq_None_iff)

text \<open>
  C1. For every organization, reading back the tree that \<open>organization_to_msp\<close> builds
  (no endorsement policy, no extra policies) under the organization's MSP id returns an
  organization with the same \<open>root_certs\<close>, \<open>intermediate_certs\<close>, \<open>admins\<close>,
  \<open>revocation_list\<close>, \<open>tls_root_certs\<close>, \<open>tls_intermediate_certs\<close>,
  \<open>fabric_node_ous\<close>, \<open>organizational_unit_identifiers\<close> and \<open>msp_id\<close>; its
  \<open>signing_identity\<close> is null.
\<close>

theorem organization_msp_roundtrip:
  "\<exists>org'. msp_to_organization (msp_id org) (organization_to_msp org False []) = Inr org'
     \<and> root_certs org' = root_certs org
     \<and> intermediate_certs org' = intermediate_certs org
     \<and> admins org' = admins org
     \<and> revocation_list org' = revocation_list org
     \<and> tls_root_certs org' = tls_root_certs org
     \<and> tls_intermediate_certs org' = tls_intermediate_certs org
     \<and> fabric_node_ous org' = fabric_node_ous org
     \<and> organizational_unit_identifiers org' = organizational_unit_identifiers org
     \<and> msp_id org' = msp_id org
     \<and> signing_identity org' = JNull"
  by (simp add: msp_to_organization_def organization_to_msp_def)





text \<open>
  C8. For every organization, the tree built without endorsement policy and without
  extra policies has exactly the policies \<open>Admins\<close>, \<open>Readers\<close> and \<open>Writers\<close>. Each is a
  policy of type 1 with one principal, of classification \<open>ROLE\<close>, for the organization's
  MSP id, with the role \<open>ADMIN\<close> for \<open>Admins\<close> and \<open>MEMBER\<close> for \<open>Readers\<close> and
  \<open>Writers\<close>, and the rule 1 out of the one entry \<open>signed_by = 0\<close>.
\<close>

theorem organization_to_msp_default_policies:
  "get_path (organization_to_msp organization False []) [''policies''] =
     Some (JDict
       [(''Admins'', JDict [(''mod_policy'', JStr ''Admins''),
           (''policy'', JDict [(''type'', JInt 1),
              (''value'', JDict
                 [(''identities'', JList
                     [JDict [(''principal'', JDict [(''msp_identifier'', JStr (msp_id organization)),
                                                    (''role'', JStr ''ADMIN'')]),
                             (''principal_classification'', JStr ''ROLE'')]]),
                  (''rule'', JDict
                     [(''n_out_of'', JDict [(''n'', JInt 1),
                         (''rules'', JList [JDict [(''signed_by'', JInt 0)]])])])])])]),
        (''Readers'', JDict [(''mod_policy'', JStr ''Admins''),
           (''policy'', JDict [(''type'', JInt 1),
              (''value'', JDict
                 [(''identities'', JList
                     [JDict [(''principal'', JDict [(''msp_identifier'', JStr (msp_id organization)),
                                                    (''role'', JStr ''MEMBER'')]),
                             (''principal_classification'', JStr ''ROLE'')]]),
                  (''rule'', JDict
                     [(''n_out_of'', JDict [(''n'', JInt 1),
                         (''rules'', JList [JDict [(''signed_by'', JInt 0)]])])])])])]),
        (''Writers'', JDict [(''mod_policy'', JStr ''Admins''),
           (''policy'', JDict [(''type'', JInt 1),
              (''value'', JDict
                 [(''identities'', JList
                     [JDict [(''principal'', JDict [(''msp_identifier'', JStr (msp_id organization)),
                                                    (''role'', JStr ''MEMBER'')]),
                             (''principal_classification'', JStr ''ROLE'')]]),
                  (''rule'', JDict
                     [(''n_out_of'', JDict [(''n'', JInt 1),
                         (''rules'', JList [JDict [(''signed_by'', JInt 0)]])])])])])])])"
  by (simp add: organization_to_msp_def get_default_admins_policy_def
      get_default_readers_policy_def get_default_writers_policy_def)

text \<open>
  C9. For every MSP id given as argument and every well-formed tree, whatever the
  \<open>name\<close> inside \<open>values.MSP.value.config\<close> is, \<open>msp_to_organization\<close> returns an
  organization whose \<open>name\<close> and \<open>msp_id\<close> are both the argument.
\<close>

theorem msp_to_organization_ignores_name:
  assumes "well_formed_msp msp"
  shows "\<exists>org. msp_to_organization mspid msp = Inr org \<and> name org = mspid \<and> msp_id org = mspid"
proof -
  from assms obtain config where
    p: "get_path msp [''values'', ''MSP'', ''value'', ''config''] = Some (JDict config)"
    and k: "list_all (\<lambda>k. k \<in> set (keys config)) organization_fields"
    by (auto simp: well_formed_msp_def split: option.splits json.splits)
  from p obtain vals where s1: "subscript msp ''values'' = Inr vals"
    and p1: "get_path vals [''MSP'', ''value'', ''config''] = Some (JDict config)"
    using get_path_Some_subscript by blast
  from p1 obtain msp_value where s2: "subscript vals ''MSP'' = Inr msp_value"
    and p2: "get_path msp_value [''value'', ''config''] = Some (JDict config)"
    using get_path_Some_subscript by blast
  from p2 obtain val where s3: "subscript msp_value ''value'' = Inr val"
    and p3: "get_path val [''config''] = Some (JDict config)"
    using get_path_Some_subscript by blast
  from p3 have s4: "subscript val ''config'' = Inr (JDict config)"
    using get_path_Some_subscript by fastforce
  from k have m: "''root_certs'' \<in> set (keys config)" "''intermediate_certs'' \<in> set (keys config)"
    "''admins'' \<in> set (keys config)" "''revocation_list'' \<in> set (keys config)"
    "''tls_root_certs'' \<in> set (keys config)" "''tls_intermediate_certs'' \<in> set (keys config)"
    "''fabric_node_ous'' \<in> set (keys config)"
    "''organizational_unit_identifiers'' \<in> set (keys config)"
    by (simp_all add: organization_fields_def)
  from m obtain rc ic ad rl trc tic fno oui where f:
    "subscript (JDict config) ''root_certs'' = Inr rc"
    "subscript (JDict config) ''intermediate_certs'' = Inr ic"
    "subscript (JDict config) ''admins'' = Inr ad"
    "subscript (JDict config) ''revocation_list'' = Inr rl"
    "subscript (JDict config) ''tls_root_certs'' = Inr trc"
    "subscript (JDict config) ''tls_intermediate_certs'' = Inr tic"
    "subscript (JDict config) ''fabric_node_ous'' = Inr fno"
    "subscript (JDict config) ''organizational_unit_identifiers'' = Inr oui"
    by (meson subscript_dict_mem)
  show ?thesis
    unfolding msp_to_organization_def by (simp add: s1 s2 s3 s4 f del: subscript.simps)
qed

theorem msp_to_organization_ignores_name_witness:
  "well_formed_msp
     (JDict [(''values'', JDict [(''MSP'', JDict [(''value'', JDict [(''config'', JDict
        [(''name'', JStr ''SomeOtherName''), (''root_certs'', JList [JStr ''cert'']),
         (''intermediate_certs'', JList []), (''admins'', JList []),
         (''revocation_list'', JList []), (''tls_root_certs'', JList []),
         (''tls_intermediate_certs'', JList []), (''fabric_node_ous'', JNull),
         (''organizational_unit_identifiers'', JList [])])])])])])
   \<and> (\<exists>org. msp_to_organization ''Org1MSP''
     (JDict [(''values'', JDict [(''MSP'', JDict [(''value'', JDict [(''config'', JDict
        [(''name'', JStr ''SomeOtherName''), (''root_certs'', JList [JStr ''cert'']),
         (''intermediate_certs'', JList []), (''admins'', JList []),
         (''revocation_list'', JList []), (''tls_root_certs'', JList []),
         (''tls_intermediate_certs'', JList []), (''fabric_node_ous'', JNull),
         (''organizational_unit_identifiers'', JList [])])])])])]) = Inr org
      \<and> name org = ''Org1MSP'' \<and> msp_id org = ''Org1MSP'')"
proof -
  have wf: "well_formed_msp
     (JDict [(''values'', JDict [(''MSP'', JDict [(''value'', JDict [(''config'', JDict
        [(''name'', JStr ''SomeOtherName''), (''root_certs'', JList [JStr ''cert'']),
         (''intermediate_certs'', JList []), (''admins'', JList []),
         (''revocation_list'', JList []), (''tls_root_certs'', JList []),
         (''tls_intermediate_certs'', JList []), (''fabric_node_ous'', JNull),
         (''organizational_unit_identifiers'', JList [])])])])])])"
    by (simp add: well_formed_msp_def organization_fields_def keys_def)
  show ?thesis
    using wf msp_to_organization_ignores_name [OF wf, of "''Org1MSP''"] by blast
qed

subsection \<open>Runs and dictionaries\<close>

lemma step_ret [simp]: "step (ret x) f = f x"
  by (cases "f x") (simp add: step_def ret_def)

lemma step_raise [simp]: "step (raise e) f = raise e"
  by (simp add: step_def raise_def)

lemma step_lift_Inr [simp]: "step (lift (Inr x)) f = f x"
  by (cases "f x") (simp add: step_def lift_def)

lemma step_lift_Inl [simp]: "step (lift (Inl e)) f = raise e"
  by (simp add: step_def lift_def raise_def)

lemma step_call_Inr [simp]:
  "step (call c (Inr x)) f = (case f x of (later, r) \<Rightarrow> (c # later, r))"
  by (simp add: step_def call_def)

lemma step_call_Inl [simp]: "step (call c (Inl e)) f = ([c], Inl e)"
  by (simp add: step_def call_def)

lemma step_pair_Inr [simp]:
  "step (calls, Inr x) f = (case f x of (later, r) \<Rightarrow> (calls @ later, r))"
  by (simp add: step_def)

lemma step_pair_Inl [simp]: "step (calls, Inl e) f = (calls, Inl e)"
  by (simp add: step_def)

lemma fst_ret [simp]: "fst (ret x) = []" and snd_ret [simp]: "snd (ret x) = Inr x"
  by (simp_all add: ret_def)

lemma fst_raise [simp]: "fst (raise e) = []" and snd_raise [simp]: "snd (raise e) = Inl e"
  by (simp_all add: raise_def)

lemma fst_step: "fst (step m f) = fst m @ (case snd m of Inl e \<Rightarrow> [] | Inr x \<Rightarrow> fst (f x))"
  by (cases m; cases "snd m") (auto simp: step_def split: prod.splits)






















subsection \<open>The update payload\<close>







subsection \<open>Banned changes\<close>









subsection \<open>The scrubbed resources\<close>













lemma lift_calls [simp]: "fst (lift r) = []"
  by (simp add: lift_def)

lemma call_calls [simp]: "fst (call c r) = [c]"
  by (simp add: call_def)


lemma send_config_block_call_names:
  "\<forall>call \<in> set (fst (send_config_block c h p state)).
     call_name call = ''submit_config_block'' \<or> call_name call = ''edit_ordering_service_node''"
  by (auto simp: send_config_block_def fst_step simp del: subscript.simps
           split: sum.splits if_splits option.splits)





subsection \<open>A run on a converged node\<close>

lemma set_set_difference: "set (set_difference a b) = set a - set b"
  by (auto simp: set_difference_def)

lemma distinct_set_difference: "distinct a \<Longrightarrow> distinct (set_difference a b)"
  by (simp add: set_difference_def)

lemma normalized_set_distinct: "normalized_set f xs = Inr ys \<Longrightarrow> distinct ys"
  by (auto simp: normalized_set_def and_then_eq_Inr)

lemma reconcile_admin_certs_edit:
  assumes "expected_admin_certs p = Inr expected_admins" and "truthy expected_admins"
      and "normalized_set (normalize_whitespace h) expected_admins = Inr desired"
      and "map_of node ''admin_certs'' = Some actual_admins" and "actual_admins \<noteq> JNull"
      and "normalized_set (normalize_whitespace h) actual_admins = Inr actual"
      and "map_of node ''id'' = Some node_id"
  shows "reconcile_admin_certs c h p (has_changed, node) =
           (if set desired = set actual then ret (has_changed, node)
            else step (call (EditAdminCerts node_id (set_difference desired actual)
                               (set_difference actual desired))
                         (edit_admin_certs c node_id (set_difference desired actual)
                               (set_difference actual desired)))
                   (\<lambda>_. ret (True, node)))"
proof -
  have "(set_difference desired actual \<noteq> [] \<or> set_difference actual desired \<noteq> []) \<longleftrightarrow>
        set desired \<noteq> set actual"
    using set_set_difference [of desired actual] set_set_difference [of actual desired]
    by (metis Diff_cancel Diff_eq_empty_iff set_empty subset_antisym)
  then show ?thesis
    using assms by (simp add: reconcile_admin_certs_def Let_def)
qed






subsection \<open>Admin certificates and versions\<close>

lemma expected_admin_certs_sources:
  assumes "admins_value p = expected_admins
             \<and> truthy expected_admins
         \<or> \<not> truthy (admins_value p)
             \<and> p_crypto p = Some crypto
             \<and> crypto_admincerts crypto ''enrollment'' = Inr expected_admins
             \<and> truthy expected_admins
         \<or> \<not> truthy (admins_value p)
             \<and> p_crypto p = Some crypto
             \<and> crypto_admincerts crypto ''enrollment'' = Inr from_enrollment
             \<and> \<not> truthy from_enrollment
             \<and> crypto_admincerts crypto ''msp'' = Inr expected_admins
             \<and> truthy expected_admins"
  shows "expected_admin_certs p = Inr expected_admins"
proof -
  have "crypto \<noteq> []" if "crypto_admincerts crypto t = Inr v" "truthy v" for t v
    using that by (auto simp: crypto_admincerts_def)
  then show ?thesis
    using assms by (auto simp: expected_admin_certs_def Let_def)
qed

lemma create_branch_call_names:
  "''edit_admin_certs'' \<notin> set (map call_name (fst (step (create_branch c h display_name)
       (\<lambda>created. finish c' h' (fst created) True (snd created)))))"
  by (auto simp: create_branch_def resolve_create_version_def finish_def fst_step ret_def
           split: sum.splits option.splits if_splits)

text \<open>
  C5, amended. The admin certificates are reconciled on the update branch, after the
  update step: when the desired certificates are determined (from \<open>admins\<close>, else from
  \<open>crypto.enrollment.component.admincerts\<close>, else from
  \<open>crypto.msp.component.admincerts\<close>) and the node reports \<open>admin_certs\<close>, both
  lists are normalized into sets and, unless the sets are equal, one call
  \<open>edit_admin_certs(id, add, remove)\<close> follows the calls of the update step, with the
  desired certificates that are not observed to add and the observed ones that are not
  desired to remove; no other such call is made. The create branch makes no
  \<open>edit_admin_certs\<close> call.
\<close>

theorem admin_certs_reconciled_after_update:
  assumes "strip_rejected_resources observed = Inr stripped"
      and "resolve_update_version c p (expected_update p) = (calls1, Inr expected)"
      and "apply_update c h p stripped expected = (calls2, Inr (has_changed, node))"
      and "admins_value p = expected_admins
             \<and> truthy expected_admins
         \<or> \<not> truthy (admins_value p)
             \<and> p_crypto p = Some crypto
             \<and> crypto_admincerts crypto ''enrollment'' = Inr expected_admins
             \<and> truthy expected_admins
         \<or> \<not> truthy (admins_value p)
             \<and> p_crypto p = Some crypto
             \<and> crypto_admincerts crypto ''enrollment'' = Inr from_enrollment
             \<and> \<not> truthy from_enrollment
             \<and> crypto_admincerts crypto ''msp'' = Inr expected_admins
             \<and> truthy expected_admins"
      and "normalized_set (normalize_whitespace h) expected_admins = Inr desired"
      and "map_of node ''admin_certs'' = Some actual_admins" and "actual_admins \<noteq> JNull"
      and "normalized_set (normalize_whitespace h) actual_admins = Inr actual"
      and "map_of node ''id'' = Some node_id"
  shows "(\<exists>rest. fst (update_branch c h p observed) =
            calls1 @ calls2 @
            (if set desired = set actual then []
             else [EditAdminCerts node_id (set_difference desired actual)
                     (set_difference actual desired)]) @ rest
          \<and> ''edit_admin_certs'' \<notin> set (map call_name rest))
       \<and> set (set_difference desired actual) = set desired - set actual
       \<and> set (set_difference actual desired) = set actual - set desired
       \<and> distinct (set_difference desired actual) \<and> distinct (set_difference actual desired)
       \<and> ''edit_admin_certs'' \<notin> set (map call_name (fst (step (create_branch c h display_name)
             (\<lambda>created. finish c h (fst created) True (snd created)))))"
proof -
  have ea: "expected_admin_certs p = Inr expected_admins"
    using assms(4) by (rule expected_admin_certs_sources)
  note r = reconcile_admin_certs_edit [OF ea _ assms(5-9), of c has_changed]
  have t: "truthy expected_admins" using assms(4) by auto
  have u: "fst (update_branch c h p observed) =
        calls1 @ calls2 @ fst (step (reconcile_admin_certs c h p (has_changed, node))
                                 (send_config_block c h p))"
    by (simp add: update_branch_def assms(1-3) case_prod_beta)
  have names: "''edit_admin_certs'' \<notin> set (map call_name (fst (send_config_block c h p state)))"
    for state
    using send_config_block_call_names [of c h p state] by auto
  have "\<exists>rest. fst (step (reconcile_admin_certs c h p (has_changed, node)) (send_config_block c h p)) =
            (if set desired = set actual then []
             else [EditAdminCerts node_id (set_difference desired actual)
                     (set_difference actual desired)]) @ rest
          \<and> ''edit_admin_certs'' \<notin> set (map call_name rest)"
  proof (cases "set desired = set actual")
    case True
    then show ?thesis using names [of "(has_changed, node)"] by (simp add: r [OF t])
  next
    case False
    show ?thesis
    proof (cases "edit_admin_certs c node_id (set_difference desired actual)
                    (set_difference actual desired)")
      case (Inl e)
      then show ?thesis using False by (simp add: r [OF t])
    next
      case (Inr x)
      then show ?thesis
        using False names [of "(True, node)"] by (simp add: r [OF t] case_prod_beta)
    qed
  qed
  then have "\<exists>rest. fst (update_branch c h p observed) =
            calls1 @ calls2 @
            (if set desired = set actual then []
             else [EditAdminCerts node_id (set_difference desired actual)
                     (set_difference actual desired)]) @ rest
          \<and> ''edit_admin_certs'' \<notin> set (map call_name rest)"
    unfolding u by auto
  then show ?thesis
    using create_branch_call_names [of c h display_name c h]
      normalized_set_distinct [OF assms(5)] normalized_set_distinct [OF assms(8)]
    by (simp add: set_set_difference distinct_set_difference)
qed

theorem admin_certs_reconciled_after_update_witness:
  "strip_rejected_resources demo_node = Inr demo_stripped
   \<and> resolve_update_version (demo_console (Some demo_node))
        (demo_params\<lparr>p_admins := Some [''A'', ''B '']\<rparr>)
        (expected_update (demo_params\<lparr>p_admins := Some [''A'', ''B '']\<rparr>))
      = ([], Inr [(''config_override'', JDict [])])
   \<and> apply_update (demo_console (Some demo_node)) (demo_helpers demo_params)
        (demo_params\<lparr>p_admins := Some [''A'', ''B '']\<rparr>) demo_stripped
        [(''config_override'', JDict [])] = ([], Inr (False, demo_stripped))
   \<and> normalized_set (normalize_whitespace (demo_helpers demo_params))
        (JList [JStr ''A'', JStr ''B '']) = Inr [''A'', ''B'']
   \<and> map_of demo_stripped ''admin_certs'' = Some (JList [JStr ''B'', JStr '' C''])
   \<and> normalized_set (normalize_whitespace (demo_helpers demo_params))
        (JList [JStr ''B'', JStr '' C'']) = Inr [''B'', ''C'']
   \<and> map_of demo_stripped ''id'' = Some (JStr ''osn1'')
   \<and> fst (update_branch (demo_console (Some demo_node)) (demo_helpers demo_params)
        (demo_params\<lparr>p_admins := Some [''A'', ''B '']\<rparr>) demo_node)
      = [EditAdminCerts (JStr ''osn1'') [''A''] [''C'']]"
proof -
  let ?c = "demo_console (Some demo_node)"
  let ?h = "demo_helpers demo_params"
  let ?p = "demo_params\<lparr>p_admins := Some [''A'', ''B '']\<rparr>"
  have h1: "strip_rejected_resources demo_node = Inr demo_stripped"
    by (simp add: demo_defs python_defs update_defs)
  have h2: "resolve_update_version ?c ?p (expected_update ?p) = ([], Inr [(''config_override'', JDict [])])"
    by (simp add: demo_defs python_defs update_defs)
  have h3: "apply_update ?c ?h ?p demo_stripped [(''config_override'', JDict [])]
      = ([], Inr (False, demo_stripped))"
    by (simp add: demo_defs python_defs update_defs)
  have h4: "admins_value ?p
              = JList [JStr ''A'', JStr ''B ''] \<and> truthy (JList [JStr ''A'', JStr ''B ''])
         \<or> \<not> truthy (admins_value ?p)
             \<and> p_crypto ?p = Some []
             \<and> crypto_admincerts [] ''enrollment'' = Inr (JList [JStr ''A'', JStr ''B ''])
             \<and> truthy (JList [JStr ''A'', JStr ''B ''])
         \<or> \<not> truthy (admins_value ?p)
             \<and> p_crypto ?p = Some []
             \<and> crypto_admincerts [] ''enrollment'' = Inr JNull
             \<and> \<not> truthy JNull
             \<and> crypto_admincerts [] ''msp'' = Inr (JList [JStr ''A'', JStr ''B ''])
             \<and> truthy (JList [JStr ''A'', JStr ''B ''])"
    by (simp add: demo_defs admins_value_def)
  have h5: "normalized_set (normalize_whitespace ?h) (JList [JStr ''A'', JStr ''B '']) = Inr [''A'', ''B'']"
    by (simp add: demo_defs normalized_set_def)
  have h6: "map_of demo_stripped ''admin_certs'' = Some (JList [JStr ''B'', JStr '' C''])"
    by (simp add: demo_defs)
  have h7: "JList [JStr ''B'', JStr '' C''] \<noteq> JNull" by simp
  have h8: "normalized_set (normalize_whitespace ?h) (JList [JStr ''B'', JStr '' C'']) = Inr [''B'', ''C'']"
    by (simp add: demo_defs normalized_set_def)
  have h9: "map_of demo_stripped ''id'' = Some (JStr ''osn1'')"
    by (simp add: demo_defs)
  have "fst (update_branch ?c ?h ?p demo_node) = [EditAdminCerts (JStr ''osn1'') [''A''] [''C'']]"
    using admin_certs_reconciled_after_update [OF h1 h2 h3 h4 h5 h6 h7 h8 h9]
    by (simp add: demo_defs python_defs update_defs)
  then show ?thesis using h1 h2 h3 h5 h6 h8 h9 by simp
qed

text \<open>
  The create branch with the desired certificates A and B, on a console whose new node
  reports B and C: no \<open>edit_admin_certs\<close> call, and the node is returned with B and C.
\<close>

theorem admin_certs_after_create_counterexample:
  "map call_name (fst (main (demo_console None)
       (demo_helpers (demo_params\<lparr>p_admins := Some [''A'', ''B ''],
                                   p_resources := Some demo_resources\<rparr>)) []
       (demo_params\<lparr>p_admins := Some [''A'', ''B ''], p_resources := Some demo_resources\<rparr>)))
     = [''get_component_by_display_name'', ''is_free_cluster'', ''is_free_cluster'',
        ''create_ordering_service'', ''extract_ordering_service_node_info'']
   \<and> result_admin_certs (main (demo_console None)
       (demo_helpers (demo_params\<lparr>p_admins := Some [''A'', ''B ''],
                                   p_resources := Some demo_resources\<rparr>)) []
       (demo_params\<lparr>p_admins := Some [''A'', ''B ''], p_resources := Some demo_resources\<rparr>))
     = Inr (Some (JList [JStr ''B'', JStr '' C'']))"
  by code_simp

text \<open>
  C2. The version range \<open>>=2.2,<3.0\<close> on the two branches: where the create branch
  calls \<open>resolve_ordering_service_node_version\<close>, the update branch calls
  \<open>resolve_peer_version\<close>.
\<close>

theorem update_resolves_peer_version:
  "map call_name (fst (main (demo_console (Some demo_node)) (demo_helpers demo_params) []
       (demo_params\<lparr>p_version := Some ''>=2.2,<3.0'', p_resources := Some demo_resources\<rparr>)))
     = [''get_component_by_display_name'', ''is_free_cluster'', ''resolve_peer_version'',
        ''update_ordering_service_node'', ''extract_ordering_service_node_info'']
   \<and> ResolvePeerVersion ''>=2.2,<3.0'' \<in> set (fst (main (demo_console (Some demo_node))
       (demo_helpers demo_params) []
       (demo_params\<lparr>p_version := Some ''>=2.2,<3.0'', p_resources := Some demo_resources\<rparr>)))
   \<and> map call_name (fst (main (demo_console None)
       (demo_helpers (demo_params\<lparr>p_version := Some ''>=2.2,<3.0'',
                                   p_resources := Some demo_resources\<rparr>)) []
       (demo_params\<lparr>p_version := Some ''>=2.2,<3.0'', p_resources := Some demo_resources\<rparr>)))
     = [''get_component_by_display_name'', ''is_free_cluster'', ''is_free_cluster'',
        ''resolve_ordering_service_node_version'', ''create_ordering_service'',
        ''extract_ordering_service_node_info'']
   \<and> ResolveOrderingServiceNodeVersion ''>=2.2,<3.0'' \<in> set (fst (main (demo_console None)
       (demo_helpers (demo_params\<lparr>p_version := Some ''>=2.2,<3.0'',
                                   p_resources := Some demo_resources\<rparr>)) []
       (demo_params\<lparr>p_version := Some ''>=2.2,<3.0'', p_resources := Some demo_resources\<rparr>)))"
  by code_simp


end
